theory Spec2Isabelle
  imports Complex_Main "HOL-Library.Word"
begin

section \<open>Vectors and the 4x4 matrix (math/Matrix4.h, math/Matrix4.cpp)\<close>

text \<open>
  The C++ \<open>double\<close> is modelled by \<open>real\<close>: all statements below are statements
  over exact arithmetic. A division whose divisor is zero yields an infinity or a NaN in the
  program and \<open>0\<close> in HOL, so every theorem that depends on a quotient carries the
  hypothesis that the divisor is not zero.

  \<open>BasicVector3<double>\<close> and \<open>BasicVector2<double>\<close> are the three and two
  component vectors; \<open>point[0]\<close>, \<open>point[1]\<close>, \<open>point[2]\<close> of the source are the
  three arguments of the constructor.
\<close>

datatype Vector3 = Vector3 real real real

datatype Vector2 = Vector2 real real

text \<open>
  \<open>Matrix4\<close> stores \<open>double _m[16]\<close> column-wise. The accessors of the class name
  the sixteen cells: \<open>_m[0..3]\<close> are \<open>xx xy xz xw\<close>, \<open>_m[4..7]\<close> are
  \<open>yx yy yz yw\<close>, \<open>_m[8..11]\<close> are \<open>zx zy zz zw\<close> and \<open>_m[12..15]\<close> are
  \<open>tx ty tz tw\<close>.
\<close>

record Matrix4 =
  xx :: real
  xy :: real
  xz :: real
  xw :: real
  yx :: real
  yy :: real
  yz :: real
  yw :: real
  zx :: real
  zy :: real
  zz :: real
  zw :: real
  tx :: real
  ty :: real
  tz :: real
  tw :: real

definition byColumns ::
  "real \<Rightarrow> real \<Rightarrow> real \<Rightarrow> real \<Rightarrow> real \<Rightarrow> real \<Rightarrow> real \<Rightarrow> real \<Rightarrow>
   real \<Rightarrow> real \<Rightarrow> real \<Rightarrow> real \<Rightarrow> real \<Rightarrow> real \<Rightarrow> real \<Rightarrow> real \<Rightarrow> Matrix4" where
  "byColumns xx' xy' xz' xw' yx' yy' yz' yw' zx' zy' zz' zw' tx' ty' tz' tw' =
     \<lparr> xx = xx', xy = xy', xz = xz', xw = xw',
       yx = yx', yy = yy', yz = yz', yw = yw',
       zx = zx', zy = zy', zz = zz', zw = zw',
       tx = tx', ty = ty', tz = tz', tw = tw' \<rparr>"

definition getIdentity :: Matrix4 where
  "getIdentity = byColumns 1 0 0 0  0 1 0 0  0 0 1 0  0 0 0 1"

definition getTranslation :: "Vector3 \<Rightarrow> Matrix4" where
  "getTranslation translation =
     (case translation of Vector3 t0 t1 t2 \<Rightarrow>
        byColumns 1 0 0 0  0 1 0 0  0 0 1 0  t0 t1 t2 1)"

definition getScale :: "Vector3 \<Rightarrow> Matrix4" where
  "getScale scale =
     (case scale of Vector3 s0 s1 s2 \<Rightarrow>
        byColumns s0 0 0 0  0 s1 0 0  0 0 s2 0  0 0 0 1)"

definition getTransposed :: "Matrix4 \<Rightarrow> Matrix4" where
  "getTransposed m =
     byColumns (xx m) (yx m) (zx m) (tx m)
               (xy m) (yy m) (zy m) (ty m)
               (xz m) (yz m) (zz m) (tz m)
               (xw m) (yw m) (zw m) (tw m)"

text \<open>
  \<open>Matrix4::getMultipliedBy\<close> (``post-multiply this with other''); \<open>other[i]\<close> and
  \<open>_m[i]\<close> are written with the cell names.
\<close>

definition getMultipliedBy :: "Matrix4 \<Rightarrow> Matrix4 \<Rightarrow> Matrix4" where
  "getMultipliedBy this other =
     byColumns
       (xx other * xx this + xy other * yx this + xz other * zx this + xw other * tx this)
       (xx other * xy this + xy other * yy this + xz other * zy this + xw other * ty this)
       (xx other * xz this + xy other * yz this + xz other * zz this + xw other * tz this)
       (xx other * xw this + xy other * yw this + xz other * zw this + xw other * tw this)
       (yx other * xx this + yy other * yx this + yz other * zx this + yw other * tx this)
       (yx other * xy this + yy other * yy this + yz other * zy this + yw other * ty this)
       (yx other * xz this + yy other * yz this + yz other * zz this + yw other * tz this)
       (yx other * xw this + yy other * yw this + yz other * zw this + yw other * tw this)
       (zx other * xx this + zy other * yx this + zz other * zx this + zw other * tx this)
       (zx other * xy this + zy other * yy this + zz other * zy this + zw other * ty this)
       (zx other * xz this + zy other * yz this + zz other * zz this + zw other * tz this)
       (zx other * xw this + zy other * yw this + zz other * zw this + zw other * tw this)
       (tx other * xx this + ty other * yx this + tz other * zx this + tw other * tx this)
       (tx other * xy this + ty other * yy this + tz other * zy this + tw other * ty this)
       (tx other * xz this + ty other * yz this + tz other * zz this + tw other * tz this)
       (tx other * xw this + ty other * yw this + tz other * zw this + tw other * tw this)"

definition getPremultipliedBy :: "Matrix4 \<Rightarrow> Matrix4 \<Rightarrow> Matrix4" where
  "getPremultipliedBy this other = getMultipliedBy other this"

definition transformPoint :: "Matrix4 \<Rightarrow> Vector3 \<Rightarrow> Vector3" where
  "transformPoint m point =
     (case point of Vector3 p0 p1 p2 \<Rightarrow>
        Vector3 (xx m * p0 + yx m * p1 + zx m * p2 + tx m)
                (xy m * p0 + yy m * p1 + zy m * p2 + ty m)
                (xz m * p0 + yz m * p1 + zz m * p2 + tz m))"

definition transformDirection :: "Matrix4 \<Rightarrow> Vector3 \<Rightarrow> Vector3" where
  "transformDirection m direction =
     (case direction of Vector3 d0 d1 d2 \<Rightarrow>
        Vector3 (xx m * d0 + yx m * d1 + zx m * d2)
                (xy m * d0 + yy m * d1 + zy m * d2)
                (xz m * d0 + yz m * d1 + zz m * d2))"

text \<open>
  \<open>Matrix4::getInverse\<close>, the affine inverse. \<open>affineDeterminant\<close> is the local
  \<open>det\<close> of the source before it is overwritten by \<open>1.0f / det\<close>; the source does
  not test it (``throw exception here if (det*det < 1e-25)'' is only a comment).
\<close>

definition affineDeterminant :: "Matrix4 \<Rightarrow> real" where
  "affineDeterminant m =
       xx m * (yy m * zz m - zy m * yz m)
     - xy m * (yx m * zz m - zx m * yz m)
     + xz m * (yx m * zy m - zx m * yy m)"

definition getInverse :: "Matrix4 \<Rightarrow> Matrix4" where
  "getInverse m =
     (let det = 1 / affineDeterminant m;
          r0 = (yy m * zz m - yz m * zy m) * det;
          r1 = - (xy m * zz m - xz m * zy m) * det;
          r2 = (xy m * yz m - xz m * yy m) * det;
          r4 = - (yx m * zz m - yz m * zx m) * det;
          r5 = (xx m * zz m - xz m * zx m) * det;
          r6 = - (xx m * yz m - xz m * yx m) * det;
          r8 = (yx m * zy m - yy m * zx m) * det;
          r9 = - (xx m * zy m - xy m * zx m) * det;
          r10 = (xx m * yy m - xy m * yx m) * det
      in \<lparr> xx = r0, xy = r1, xz = r2, xw = 0,
           yx = r4, yy = r5, yz = r6, yw = 0,
           zx = r8, zy = r9, zz = r10, zw = 0,
           tx = - (tx m * r0 + ty m * r4 + tz m * r8),
           ty = - (tx m * r1 + ty m * r5 + tz m * r9),
           tz = - (tx m * r2 + ty m * r6 + tz m * r10),
           tw = 1 \<rparr>)"

text \<open>
  \<open>Matrix4::getFullInverse\<close>, through the adjugate. \<open>fullDeterminant\<close> is the local
  \<open>determinant\<close> of the source, built from the same minors.
\<close>

definition minor3x3_11 :: "Matrix4 \<Rightarrow> real" where
  "minor3x3_11 m =
     (let minor01 = zz m * tw m - zw m * tz m;
          minor02 = zy m * tw m - zw m * ty m;
          minor04 = zy m * tz m - zz m * ty m
      in yy m * minor01 - yz m * minor02 + yw m * minor04)"

definition minor3x3_21 :: "Matrix4 \<Rightarrow> real" where
  "minor3x3_21 m =
     (let minor01 = zz m * tw m - zw m * tz m;
          minor03 = zx m * tw m - zw m * tx m;
          minor05 = zx m * tz m - zz m * tx m
      in yx m * minor01 - yz m * minor03 + yw m * minor05)"

definition minor3x3_31 :: "Matrix4 \<Rightarrow> real" where
  "minor3x3_31 m =
     (let minor02 = zy m * tw m - zw m * ty m;
          minor03 = zx m * tw m - zw m * tx m;
          minor06 = zx m * ty m - zy m * tx m
      in yx m * minor02 - yy m * minor03 + yw m * minor06)"

definition minor3x3_41 :: "Matrix4 \<Rightarrow> real" where
  "minor3x3_41 m =
     (let minor04 = zy m * tz m - zz m * ty m;
          minor05 = zx m * tz m - zz m * tx m;
          minor06 = zx m * ty m - zy m * tx m
      in yx m * minor04 - yy m * minor05 + yz m * minor06)"

definition fullDeterminant :: "Matrix4 \<Rightarrow> real" where
  "fullDeterminant m =
     xx m * minor3x3_11 m - xy m * minor3x3_21 m + xz m * minor3x3_31 m - xw m * minor3x3_41 m"

definition getFullInverse :: "Matrix4 \<Rightarrow> Matrix4" where
  "getFullInverse m =
     (let minor01 = zz m * tw m - zw m * tz m;
          minor02 = zy m * tw m - zw m * ty m;
          minor03 = zx m * tw m - zw m * tx m;
          minor04 = zy m * tz m - zz m * ty m;
          minor05 = zx m * tz m - zz m * tx m;
          minor06 = zx m * ty m - zy m * tx m;
          minor07 = yz m * tw m - yw m * tz m;
          minor08 = yy m * tw m - yw m * ty m;
          minor09 = yy m * tz m - yz m * ty m;
          minor10 = yx m * tw m - yw m * tx m;
          minor11 = yx m * tz m - yz m * tx m;
          minor12 = yx m * ty m - yy m * tx m;
          minor13 = yz m * zw m - yw m * zz m;
          minor14 = yy m * zw m - yw m * zy m;
          minor15 = yy m * zz m - yz m * zy m;
          minor16 = yx m * zw m - yw m * zx m;
          minor17 = yx m * zz m - yz m * zx m;
          minor18 = yx m * zy m - yy m * zx m;
          minor3x3_12 = xy m * minor01 - xz m * minor02 + xw m * minor04;
          minor3x3_22 = xx m * minor01 - xz m * minor03 + xw m * minor05;
          minor3x3_32 = xx m * minor02 - xy m * minor03 + xw m * minor06;
          minor3x3_42 = xx m * minor04 - xy m * minor05 + xz m * minor06;
          minor3x3_13 = xy m * minor07 - xz m * minor08 + xw m * minor09;
          minor3x3_23 = xx m * minor07 - xz m * minor10 + xw m * minor11;
          minor3x3_33 = xx m * minor08 - xy m * minor10 + xw m * minor12;
          minor3x3_43 = xx m * minor09 - xy m * minor11 + xz m * minor12;
          minor3x3_14 = xy m * minor13 - xz m * minor14 + xw m * minor15;
          minor3x3_24 = xx m * minor13 - xz m * minor16 + xw m * minor17;
          minor3x3_34 = xx m * minor14 - xy m * minor16 + xw m * minor18;
          minor3x3_44 = xx m * minor15 - xy m * minor17 + xz m * minor18;
          invDet = 1 / fullDeterminant m
      in byColumns
           (minor3x3_11 m * invDet) (- minor3x3_12 * invDet)
           (minor3x3_13 * invDet) (- minor3x3_14 * invDet)
           (- minor3x3_21 m * invDet) (minor3x3_22 * invDet)
           (- minor3x3_23 * invDet) (minor3x3_24 * invDet)
           (minor3x3_31 m * invDet) (- minor3x3_32 * invDet)
           (minor3x3_33 * invDet) (- minor3x3_34 * invDet)
           (- minor3x3_41 m * invDet) (minor3x3_42 * invDet)
           (- minor3x3_43 * invDet) (minor3x3_44 * invDet))"

text \<open>
  Modelled from the spec: \<open>BasicVector3::getNormalised\<close> of math/Vector3.h, which is
  not among the sources. The spec calls it re-normalisation: the vector divided by its
  Euclidean length.
\<close>

definition getLength :: "Vector3 \<Rightarrow> real" where
  "getLength v = (case v of Vector3 a b c \<Rightarrow> sqrt (a * a + b * b + c * c))"

definition getNormalised :: "Vector3 \<Rightarrow> Vector3" where
  "getNormalised v =
     (case v of Vector3 a b c \<Rightarrow> Vector3 (a / getLength v) (b / getLength v) (c / getLength v))"


text \<open>An affine matrix: the bottom row \<open>xw yw zw tw\<close> is \<open>(0, 0, 0, 1)\<close>.\<close>

definition isAffine :: "Matrix4 \<Rightarrow> bool" where
  "isAffine m \<longleftrightarrow> xw m = 0 \<and> yw m = 0 \<and> zw m = 0 \<and> tw m = 1"


section \<open>Vertices and the per-material source surface (FbxSurface.h)\<close>

text \<open>
  Modelled from the spec: the declaration of \<open>ArbitraryMeshVertex\<close>
  (export/ArbitraryMeshVertex.h) and its hash and equality (export/VertexHashing.h) are not
  among the sources. The record has the four members that \<open>addSurface\<close> and
  \<open>ConstructMeshVertex\<close> read and write; two vertices are the same key of the hash
  index iff all four members are equal component-wise, which is HOL equality of the record.
\<close>

record ArbitraryMeshVertex =
  vertex :: Vector3
  normal :: Vector3
  texcoord :: Vector2
  colour :: Vector3

type_synonym u32 = "32 word"

text \<open>
  \<open>std::vector<unsigned int> indices\<close>, \<open>std::vector<ArbitraryMeshVertex> vertices\<close>,
  \<open>std::string material\<close> and the hash index
  \<open>std::unordered_map<ArbitraryMeshVertex, std::size_t> vertexIndices\<close>.
\<close>

record FbxSurface =
  indices :: "u32 list"
  vertices :: "ArbitraryMeshVertex list"
  material :: string
  vertexIndices :: "ArbitraryMeshVertex \<rightharpoonup> nat"

text \<open>A default-constructed \<open>FbxSurface\<close>.\<close>

definition FbxSurface_new :: FbxSurface where
  "FbxSurface_new = \<lparr> indices = [], vertices = [], material = [], vertexIndices = Map.empty \<rparr>"

definition getVertexArray :: "FbxSurface \<Rightarrow> ArbitraryMeshVertex list" where
  "getVertexArray s = FbxSurface.vertices s"

definition getIndexArray :: "FbxSurface \<Rightarrow> u32 list" where
  "getIndexArray s = FbxSurface.indices s"

definition getActiveMaterial :: "FbxSurface \<Rightarrow> string" where
  "getActiveMaterial s = material s"

text \<open>
  \<open>FbxSurface::addVertex\<close>. \<open>try_emplace(vertex, vertices.size())\<close> leaves the index
  untouched and reports \<open>second = false\<close> when the key is present; otherwise it stores
  \<open>vertices.size()\<close> under the key. The index pushed to \<open>indices\<close> is the stored
  \<open>std::size_t\<close> cast to \<open>unsigned int\<close>, which is \<open>of_nat\<close> into \<open>32 word\<close>.
\<close>

definition addVertex :: "ArbitraryMeshVertex \<Rightarrow> FbxSurface \<Rightarrow> FbxSurface" where
  "addVertex v s =
     (case vertexIndices s v of
        Some k \<Rightarrow> s\<lparr> FbxSurface.indices := FbxSurface.indices s @ [of_nat k] \<rparr>
      | None \<Rightarrow>
          s\<lparr> vertexIndices := (vertexIndices s)(v \<mapsto> length (FbxSurface.vertices s)),
             FbxSurface.vertices := FbxSurface.vertices s @ [v],
             FbxSurface.indices :=
               FbxSurface.indices s @ [of_nat (length (FbxSurface.vertices s))] \<rparr>)"

text \<open>The index-validity invariant of a source surface.\<close>

definition FbxSurface_indexValid :: "FbxSurface \<Rightarrow> bool" where
  "FbxSurface_indexValid s \<longleftrightarrow>
     (\<forall>idx \<in> set (FbxSurface.indices s). unat idx < length (FbxSurface.vertices s))"

text \<open>
  Consistency of the hash index with the vertex array: every stored index is a position of
  the array, and that position holds the key.
\<close>

definition FbxSurface_wf :: "FbxSurface \<Rightarrow> bool" where
  "FbxSurface_wf s \<longleftrightarrow>
     (\<forall>w k. vertexIndices s w = Some k \<longrightarrow>
        k < length (FbxSurface.vertices s) \<and> FbxSurface.vertices s ! k = w)"

section \<open>Surface aggregation (ModelExporterBase)\<close>

record Surface =
  materialName :: string
  vertices :: "ArbitraryMeshVertex list"
  indices :: "u32 list"

type_synonym Surfaces = "string \<rightharpoonup> Surface"

text \<open>Every exception the modelled code throws is a \<open>std::runtime_error\<close> with a message.\<close>

datatype error = runtime_error string

text \<open>
  \<open>ensureSurface\<close> returns a reference into the map; the model returns the map together
  with the surface the reference denotes.
\<close>

definition ensureSurface :: "string \<Rightarrow> Surfaces \<Rightarrow> Surfaces \<times> Surface" where
  "ensureSurface name surfaces =
     (case surfaces name of
        Some s \<Rightarrow> (surfaces, s)
      | None \<Rightarrow>
          (let s = \<lparr> materialName = name, vertices = [], indices = [] \<rparr>
           in (surfaces(name \<mapsto> s), s)))"

text \<open>The body of the vertex loop of \<open>addSurface\<close>: the vertex that is emplaced.\<close>

definition transformVertex :: "Matrix4 \<Rightarrow> Matrix4 \<Rightarrow> ArbitraryMeshVertex \<Rightarrow> ArbitraryMeshVertex" where
  "transformVertex localToWorld invTranspTransform meshVertex =
     \<lparr> vertex = transformPoint localToWorld (vertex meshVertex),
       normal = getNormalised (transformPoint invTranspTransform (normal meshVertex)),
       texcoord = texcoord meshVertex,
       colour = colour meshVertex \<rparr>"

text \<open>
  The index loop of \<open>addSurface\<close>:
  \<open>for (i = 0; i < indices.size() - 2; i += 3)\<close>, pushing \<open>indices[i + 2]\<close>,
  \<open>indices[i + 1]\<close>, \<open>indices[i]\<close>, each plus \<open>indexStart\<close> in \<open>unsigned int\<close>
  arithmetic (word addition). The loop is reached only with \<open>indices.size() \<ge> 3\<close>, so
  the unsigned \<open>size() - 2\<close> does not wrap and every read is in range.
\<close>

function reverseWinding :: "u32 list \<Rightarrow> u32 \<Rightarrow> nat \<Rightarrow> u32 list \<Rightarrow> u32 list" where
  "reverseWinding ixs indexStart i out =
     (if i < length ixs - 2
      then reverseWinding ixs indexStart (i + 3)
             (out @ [ixs ! (i + 2) + indexStart, ixs ! (i + 1) + indexStart, ixs ! i + indexStart])
      else out)"
  by pat_completeness auto
termination
  by (relation "measure (\<lambda>(ixs, indexStart, i, out). length ixs - i)") auto

declare reverseWinding.simps [simp del]

text \<open>
  \<open>ModelExporterBase::addSurface\<close>. A throw leaves the exporter as it is at that moment,
  so the error case carries the map too.
\<close>

definition addSurface ::
  "FbxSurface \<Rightarrow> Matrix4 \<Rightarrow> Surfaces \<Rightarrow> (error \<times> Surfaces) + Surfaces" where
  "addSurface incoming localToWorld surfaces =
     (let (surfaces', surface) = ensureSurface (getActiveMaterial incoming) surfaces;
          invTranspTransform = getTransposed (getFullInverse localToWorld);
          indexStart = (of_nat (length (Surface.vertices surface)) :: u32);
          vs = getVertexArray incoming;
          ixs = getIndexArray incoming
      in if length ixs < 3
         then Inl (runtime_error ''Rejecting model surface with less than 3 indices.'', surfaces')
         else Inr (surfaces'(getActiveMaterial incoming \<mapsto>
                surface\<lparr> Surface.vertices :=
                           Surface.vertices surface
                           @ map (transformVertex localToWorld invTranspTransform) vs,
                         Surface.indices :=
                           reverseWinding ixs indexStart 0 (Surface.indices surface) \<rparr>)))"

text \<open>
  The loop at the end of \<open>ExportFbxMesh\<close>:
  \<open>for (const auto& surface : surfacesByMaterial) exporter.addSurface(surface, transform);\<close>
  There is no handler inside the loop, so the first throw ends it.
\<close>

fun ExportFbxMesh_addSurfaces ::
  "FbxSurface list \<Rightarrow> Matrix4 \<Rightarrow> Surfaces \<Rightarrow> (error \<times> Surfaces) + Surfaces" where
  "ExportFbxMesh_addSurfaces [] transform exporter = Inr exporter"
| "ExportFbxMesh_addSurfaces (surface # rest) transform exporter =
     (case addSurface surface transform exporter of
        Inl e \<Rightarrow> Inl e
      | Inr exporter' \<Rightarrow> ExportFbxMesh_addSurfaces rest transform exporter')"

text \<open>Any sequence of \<open>addSurface\<close> calls, each with its own transform.\<close>

fun addSurfaceCalls ::
  "(FbxSurface \<times> Matrix4) list \<Rightarrow> Surfaces \<Rightarrow> (error \<times> Surfaces) + Surfaces" where
  "addSurfaceCalls [] exporter = Inr exporter"
| "addSurfaceCalls ((incoming, localToWorld) # rest) exporter =
     (case addSurface incoming localToWorld exporter of
        Inl e \<Rightarrow> Inl e
      | Inr exporter' \<Rightarrow> addSurfaceCalls rest exporter')"

text \<open>The vertices and indices a material has in the export job (none when it has no entry).\<close>

definition surfaceVertices :: "Surfaces \<Rightarrow> string \<Rightarrow> ArbitraryMeshVertex list" where
  "surfaceVertices surfaces name =
     (case surfaces name of None \<Rightarrow> [] | Some s \<Rightarrow> Surface.vertices s)"

definition surfaceIndices :: "Surfaces \<Rightarrow> string \<Rightarrow> u32 list" where
  "surfaceIndices surfaces name =
     (case surfaces name of None \<Rightarrow> [] | Some s \<Rightarrow> Surface.indices s)"


text \<open>
  The winding reversal in the words of the specification: every complete triple
  \<open>(i0, i1, i2)\<close> of the source list is emitted as \<open>(i2, i1, i0)\<close>, each index plus
  the offset. It is compared with the loop \<open>reverseWinding\<close> below.
\<close>

fun reversedTriangles :: "u32 list \<Rightarrow> u32 \<Rightarrow> u32 list" where
  "reversedTriangles (i0 # i1 # i2 # rest) off =
     [i2 + off, i1 + off, i0 + off] @ reversedTriangles rest off"
| "reversedTriangles ixs off = []"

text \<open>The invariant of a \<open>Surface\<close> of the export job.\<close>

definition Surface_indexValid :: "Surface \<Rightarrow> bool" where
  "Surface_indexValid s \<longleftrightarrow>
     (\<forall>idx \<in> set (Surface.indices s). unat idx < length (Surface.vertices s))
     \<and> length (Surface.indices s) mod 3 = 0"

text \<open>
  \<open>ConstructMeshVertex\<close> of FbxToLwo.cpp for a geometry without normals, UVs and colours:
  the defaults are the normal \<open>(1, 0, 0)\<close>, the UV \<open>(0, 0)\<close> and the colour
  \<open>(1, 1, 1)\<close>.
\<close>

definition ConstructMeshVertex_defaults :: "Vector3 \<Rightarrow> ArbitraryMeshVertex" where
  "ConstructMeshVertex_defaults position =
     \<lparr> vertex = position, normal = Vector3 1 0 0, texcoord = Vector2 0 0,
       colour = Vector3 1 1 1 \<rparr>"

text \<open>
  A source surface as \<open>ExportFbxMesh\<close> builds it: one triangle with the corners
  \<open>(0,0,0)\<close>, \<open>(1,0,0)\<close>, \<open>(0,1,0)\<close>, added through \<open>addVertex\<close>.
\<close>

definition triangleSurface :: "string \<Rightarrow> FbxSurface" where
  "triangleSurface name =
     addVertex (ConstructMeshVertex_defaults (Vector3 0 1 0))
       (addVertex (ConstructMeshVertex_defaults (Vector3 1 0 0))
          (addVertex (ConstructMeshVertex_defaults (Vector3 0 0 0))
             (FbxSurface_new\<lparr> material := name \<rparr>)))"

section \<open>The export stream (stream::ExportStream)\<close>

text \<open>
  The file system is a finite map from path to file content; only regular files are
  modelled. \<open>std::filesystem::remove\<close> and \<open>std::filesystem::rename\<close> either take
  effect or throw a \<open>filesystem_error\<close> and leave the file system as it was; which of the
  two happens is decided by the environment and is a parameter of the model
  (\<open>Succeeds\<close>, or \<open>Fails what\<close> with the text of \<open>ex.what()\<close>).
  \<open>std::filesystem::exists\<close> is taken not to throw.
\<close>

type_synonym path = string

type_synonym filesystem = "path \<rightharpoonup> string"

datatype fs_outcome = Succeeds | Fails string

datatype filesystem_error = filesystem_error string

definition path_append :: "path \<Rightarrow> string \<Rightarrow> path" where
  "path_append dir name = dir @ ''/'' @ name"

definition fs_exists :: "filesystem \<Rightarrow> path \<Rightarrow> bool" where
  "fs_exists fs p \<longleftrightarrow> fs p \<noteq> None"

definition fs_remove :: "fs_outcome \<Rightarrow> path \<Rightarrow> filesystem \<Rightarrow> filesystem_error + filesystem" where
  "fs_remove outcome p fs =
     (case outcome of
        Fails what \<Rightarrow> Inl (filesystem_error what)
      | Succeeds \<Rightarrow> Inr (fs(p := None)))"

definition fs_rename ::
  "fs_outcome \<Rightarrow> path \<Rightarrow> path \<Rightarrow> filesystem \<Rightarrow> filesystem_error + filesystem" where
  "fs_rename outcome old_p new_p fs =
     (case outcome of
        Fails what \<Rightarrow> Inl (filesystem_error what)
      | Succeeds \<Rightarrow>
          (case fs old_p of
             None \<Rightarrow> Inl (filesystem_error ''No such file or directory'')
           | Some content \<Rightarrow> Inr ((fs(old_p := None))(new_p \<mapsto> content))))"

text \<open>
  \<open>std::ofstream\<close>: whether it is open, and the bytes written to it that have not reached
  the file yet. Closing an open stream flushes them to the file; closing a stream that is
  not open changes nothing.
\<close>

record ofstream =
  is_open :: bool
  unflushed :: string

definition ofstream_write :: "string \<Rightarrow> ofstream \<Rightarrow> ofstream" where
  "ofstream_write bytes st =
     (if is_open st then st\<lparr> unflushed := unflushed st @ bytes \<rparr> else st)"

definition ofstream_close :: "path \<Rightarrow> ofstream \<Rightarrow> filesystem \<Rightarrow> ofstream \<times> filesystem" where
  "ofstream_close file st fs =
     (if is_open st
      then (\<lparr> is_open = False, unflushed = [] \<rparr>,
            fs(file \<mapsto> (case fs file of None \<Rightarrow> [] | Some content \<Rightarrow> content) @ unflushed st))
      else (st, fs))"

record ExportStream =
  tempFile :: path
  tempStream :: ofstream
  outputDirectory :: string
  filename :: string

text \<open>
  The constructor: the temporary file is the file name with a leading underscore in the
  output directory; opening it for writing creates or truncates it. \<open>opens\<close> says whether
  the environment lets the stream open.
\<close>

definition ExportStream_new ::
  "bool \<Rightarrow> string \<Rightarrow> string \<Rightarrow> filesystem \<Rightarrow> (error \<times> filesystem) + (ExportStream \<times> filesystem)" where
  "ExportStream_new opens dir name fs =
     (let temp = path_append dir (''_'' @ name)
      in if opens
         then Inr (\<lparr> tempFile = temp, tempStream = \<lparr> is_open = True, unflushed = [] \<rparr>,
                     outputDirectory = dir, filename = name \<rparr>,
                   fs(temp \<mapsto> []))
         else Inl (runtime_error (''Cannot open file for writing: '' @ temp), fs))"

definition ExportStream_write :: "string \<Rightarrow> ExportStream \<Rightarrow> ExportStream" where
  "ExportStream_write bytes s = s\<lparr> tempStream := ofstream_write bytes (tempStream s) \<rparr>"

text \<open>\<open>ExportStream::close\<close>.\<close>

definition ExportStream_close ::
  "fs_outcome \<Rightarrow> fs_outcome \<Rightarrow> ExportStream \<Rightarrow> filesystem
     \<Rightarrow> (error \<times> ExportStream \<times> filesystem) + (ExportStream \<times> filesystem)" where
  "ExportStream_close removal renaming s fs =
     (let (st', fs1) = ofstream_close (tempFile s) (tempStream s) fs;
          s' = s\<lparr> tempStream := st' \<rparr>;
          targetPath = path_append (outputDirectory s) (filename s);
          removed =
            (if fs_exists fs1 targetPath
             then (case fs_remove removal targetPath fs1 of
                     Inl (filesystem_error what) \<Rightarrow>
                       Inl (runtime_error
                              (''Could not remove the existing file '' @ targetPath @ '': '' @ what))
                   | Inr fs2 \<Rightarrow> Inr fs2)
             else Inr fs1)
      in case removed of
           Inl e \<Rightarrow> Inl (e, s', fs1)
         | Inr fs2 \<Rightarrow>
             (case fs_rename renaming (tempFile s) targetPath fs2 of
                Inl _ \<Rightarrow>
                  Inl (runtime_error (''Could not rename the temporary file: '' @ tempFile s),
                       s', fs2)
              | Inr fs3 \<Rightarrow> Inr (s', fs3)))"


section \<open>Matrix algebra\<close>

lemma getMultipliedBy_assoc:
  "getMultipliedBy (getMultipliedBy A B) C = getMultipliedBy A (getMultipliedBy B C)"
  by (simp add: getMultipliedBy_def byColumns_def algebra_simps)

lemma transformPoint_getMultipliedBy:
  assumes "isAffine B"
  shows "transformPoint (getMultipliedBy A B) p = transformPoint A (transformPoint B p)"
  using assms
  by (cases p) (simp add: isAffine_def getMultipliedBy_def byColumns_def transformPoint_def algebra_simps)

text \<open>
  C9 (as amended). \<open>getMultipliedBy\<close> is associative for all matrices. Applying
  \<open>A.getMultipliedBy(B)\<close> to a point equals applying \<open>B\<close> and then \<open>A\<close> whenever the
  bottom row of \<open>B\<close> is \<open>(0, 0, 0, 1)\<close>: \<open>transformPoint\<close> takes the fourth coordinate
  of a point to be 1 and drops the fourth coordinate of its result.
\<close>

theorem getMultipliedBy_composes_and_associates:
  "(isAffine B \<longrightarrow>
      transformPoint (getMultipliedBy A B) p = transformPoint A (transformPoint B p))
   \<and> getMultipliedBy (getMultipliedBy A B) C = getMultipliedBy A (getMultipliedBy B C)"
  using transformPoint_getMultipliedBy [of B A p] getMultipliedBy_assoc [of A B C] by blast

theorem getMultipliedBy_composes_and_associates_witness:
  "isAffine (getTranslation (Vector3 1 2 3))
   \<and> transformPoint (getMultipliedBy (getScale (Vector3 2 1 1)) (getTranslation (Vector3 1 2 3)))
        (Vector3 1 1 1)
     = transformPoint (getScale (Vector3 2 1 1))
         (transformPoint (getTranslation (Vector3 1 2 3)) (Vector3 1 1 1))
   \<and> transformPoint (getScale (Vector3 2 1 1))
         (transformPoint (getTranslation (Vector3 1 2 3)) (Vector3 1 1 1)) = Vector3 4 3 4"
proof -
  have aff: "isAffine (getTranslation (Vector3 1 2 3))"
    by (simp add: isAffine_def getTranslation_def byColumns_def)
  have val: "transformPoint (getScale (Vector3 2 1 1))
         (transformPoint (getTranslation (Vector3 1 2 3)) (Vector3 1 1 1)) = Vector3 4 3 4"
    by (simp add: transformPoint_def getScale_def getTranslation_def byColumns_def)
  from getMultipliedBy_composes_and_associates
         [of "getTranslation (Vector3 1 2 3)" "getScale (Vector3 2 1 1)" "Vector3 1 1 1"]
       aff val
  show ?thesis by blast
qed

text \<open>
  C9 as stated fails for a matrix \<open>B\<close> that is not affine: with \<open>A\<close> the translation by
  \<open>(1, 0, 0)\<close> and \<open>B\<close> the identity with \<open>tw = 2\<close>, the composed matrix sends the
  origin to \<open>(2, 0, 0)\<close>, while \<open>B\<close> then \<open>A\<close> sends it to \<open>(1, 0, 0)\<close>.
\<close>

theorem getMultipliedBy_composition_counterexample:
  "transformPoint
     (getMultipliedBy (getTranslation (Vector3 1 0 0))
        (byColumns 1 0 0 0  0 1 0 0  0 0 1 0  0 0 0 2))
     (Vector3 0 0 0)
   \<noteq> transformPoint (getTranslation (Vector3 1 0 0))
       (transformPoint (byColumns 1 0 0 0  0 1 0 0  0 0 1 0  0 0 0 2) (Vector3 0 0 0))"
  by (simp add: getMultipliedBy_def byColumns_def transformPoint_def getTranslation_def)

lemma getInverse_transformPoint:
  assumes "affineDeterminant T \<noteq> 0"
  shows "transformPoint (getInverse T) (transformPoint T p) = p"
proof (cases p)
  case (Vector3 a b c)
  define d where "d = affineDeterminant T"
  define i where "i = 1 / d"
  have di: "d * i = 1"
    using assms by (simp add: d_def i_def)
  have d: "d = xx T * (yy T * zz T - zy T * yz T)
             - xy T * (yx T * zz T - zx T * yz T)
             + xz T * (yx T * zy T - zx T * yy T)"
    by (simp add: d_def affineDeterminant_def)
  show ?thesis
    unfolding Vector3 getInverse_def transformPoint_def Let_def d_def[symmetric] i_def[symmetric]
    apply simp
    apply (intro conjI)
    subgoal
      apply (rule trans [where s = "(d * i) * a"])
       apply (simp add: d algebra_simps)
      apply (simp add: di)
      done
    subgoal
      apply (rule trans [where s = "(d * i) * b"])
       apply (simp add: d algebra_simps)
      apply (simp add: di)
      done
    subgoal
      apply (rule trans [where s = "(d * i) * c"])
       apply (simp add: d algebra_simps)
      apply (simp add: di)
      done
    done
qed

lemma getInverse_transformDirection:
  assumes "affineDeterminant T \<noteq> 0"
  shows "transformDirection (getInverse T) (transformDirection T v) = v"
proof (cases v)
  case (Vector3 a b c)
  define d where "d = affineDeterminant T"
  define i where "i = 1 / d"
  have di: "d * i = 1"
    using assms by (simp add: d_def i_def)
  have d: "d = xx T * (yy T * zz T - zy T * yz T)
             - xy T * (yx T * zz T - zx T * yz T)
             + xz T * (yx T * zy T - zx T * yy T)"
    by (simp add: d_def affineDeterminant_def)
  show ?thesis
    unfolding Vector3 getInverse_def transformDirection_def Let_def
      d_def[symmetric] i_def[symmetric]
    apply simp
    apply (intro conjI)
    subgoal
      apply (rule trans [where s = "(d * i) * a"])
       apply (simp add: d algebra_simps)
      apply (simp add: di)
      done
    subgoal
      apply (rule trans [where s = "(d * i) * b"])
       apply (simp add: d algebra_simps)
      apply (simp add: di)
      done
    subgoal
      apply (rule trans [where s = "(d * i) * c"])
       apply (simp add: d algebra_simps)
      apply (simp add: di)
      done
    done
qed

lemma getInverse_translation:
  "Vector3 (tx (getInverse T)) (ty (getInverse T)) (tz (getInverse T))
   = (case transformDirection (getInverse T) (Vector3 (tx T) (ty T) (tz T)) of
        Vector3 a b c \<Rightarrow> Vector3 (- a) (- b) (- c))"
  by (simp add: getInverse_def transformDirection_def Let_def algebra_simps)

lemma getInverse_isAffine: "isAffine (getInverse T)"
  by (simp add: getInverse_def isAffine_def Let_def)

text \<open>
  C7. Whenever the determinant of the upper-left 3x3 block of \<open>T\<close> is not zero,
  \<open>T.getInverse().transformPoint(T.transformPoint(p)) = p\<close> over exact arithmetic. The
  3x3 block of the result inverts the 3x3 block of \<open>T\<close>, and its translation is minus
  that inverse applied to the translation of \<open>T\<close>. Neither function reads the bottom row
  of \<open>T\<close>, so the statement holds in particular for every affine \<open>T\<close>.
\<close>

theorem getInverse_round_trip:
  "affineDeterminant T \<noteq> 0 \<Longrightarrow>
     transformPoint (getInverse T) (transformPoint T p) = p
     \<and> transformDirection (getInverse T) (transformDirection T p) = p
     \<and> Vector3 (tx (getInverse T)) (ty (getInverse T)) (tz (getInverse T))
         = (case transformDirection (getInverse T) (Vector3 (tx T) (ty T) (tz T)) of
              Vector3 a b c \<Rightarrow> Vector3 (- a) (- b) (- c))
     \<and> isAffine (getInverse T)"
  using getInverse_transformPoint [of T p] getInverse_transformDirection [of T p]
    getInverse_translation [of T] getInverse_isAffine [of T]
  by blast

theorem getInverse_round_trip_witness:
  "affineDeterminant (byColumns 2 0 0 0  0 1 1 0  0 0 4 0  5 6 7 1) = 8
   \<and> isAffine (byColumns 2 0 0 0  0 1 1 0  0 0 4 0  5 6 7 1)
   \<and> transformPoint (byColumns 2 0 0 0  0 1 1 0  0 0 4 0  5 6 7 1) (Vector3 1 2 3)
       = Vector3 7 8 21
   \<and> transformPoint (getInverse (byColumns 2 0 0 0  0 1 1 0  0 0 4 0  5 6 7 1)) (Vector3 7 8 21)
       = Vector3 1 2 3"
proof -
  let ?T = "byColumns 2 0 0 0  0 1 1 0  0 0 4 0  5 6 7 1"
  have det: "affineDeterminant ?T = 8"
    by (simp add: affineDeterminant_def byColumns_def)
  have aff: "isAffine ?T"
    by (simp add: isAffine_def byColumns_def)
  have fwd: "transformPoint ?T (Vector3 1 2 3) = Vector3 7 8 21"
    by (simp add: transformPoint_def byColumns_def)
  have "affineDeterminant ?T \<noteq> 0"
    using det by simp
  from getInverse_round_trip [OF this, of "Vector3 1 2 3"] det aff fwd
  show ?thesis by simp
qed


section \<open>The vertex index of a source surface\<close>

lemma addVertex_known:
  "vertexIndices s v = Some k \<Longrightarrow>
     addVertex v s = s\<lparr> FbxSurface.indices := FbxSurface.indices s @ [of_nat k] \<rparr>"
  by (simp add: addVertex_def)

lemma addVertex_new:
  "vertexIndices s v = None \<Longrightarrow>
     addVertex v s =
       s\<lparr> vertexIndices := (vertexIndices s)(v \<mapsto> length (FbxSurface.vertices s)),
          FbxSurface.vertices := FbxSurface.vertices s @ [v],
          FbxSurface.indices := FbxSurface.indices s @ [of_nat (length (FbxSurface.vertices s))] \<rparr>"
  by (simp add: addVertex_def)

lemma addVertex_repeat_known:
  "vertexIndices s v = Some k \<Longrightarrow>
     (addVertex v ^^ N) s
       = s\<lparr> FbxSurface.indices := FbxSurface.indices s @ replicate N (of_nat k) \<rparr>"
proof (induction N)
  case 0
  then show ?case by simp
next
  case (Suc N)
  then show ?case
    by (simp add: addVertex_known replicate_append_same)
qed

lemma addVertex_repeat_new:
  assumes "vertexIndices s v = None"
  shows "(addVertex v ^^ Suc N) s =
       s\<lparr> vertexIndices := (vertexIndices s)(v \<mapsto> length (FbxSurface.vertices s)),
          FbxSurface.vertices := FbxSurface.vertices s @ [v],
          FbxSurface.indices :=
            FbxSurface.indices s @ replicate (Suc N) (of_nat (length (FbxSurface.vertices s))) \<rparr>"
proof -
  let ?s1 = "addVertex v s"
  have known: "vertexIndices ?s1 v = Some (length (FbxSurface.vertices s))"
    using assms by (simp add: addVertex_new)
  have "(addVertex v ^^ Suc N) s = (addVertex v ^^ N) ?s1"
    by (simp add: funpow_swap1)
  also have "\<dots> = ?s1\<lparr> FbxSurface.indices :=
      FbxSurface.indices ?s1 @ replicate N (of_nat (length (FbxSurface.vertices s))) \<rparr>"
    using known by (rule addVertex_repeat_known)
  finally show ?thesis
    using assms by (simp add: addVertex_new)
qed

lemma addVertex_wf: "FbxSurface_wf s \<Longrightarrow> FbxSurface_wf (addVertex v s)"
  unfolding FbxSurface_wf_def addVertex_def
  by (fastforce simp: nth_append less_Suc_eq split: option.splits if_splits)

lemma addVertex_funpow_wf: "FbxSurface_wf s \<Longrightarrow> FbxSurface_wf ((addVertex v ^^ N) s)"
  by (induction N) (simp_all add: addVertex_wf)

lemma addVertex_keeps_entries:
  "vertexIndices s w = Some k \<Longrightarrow> vertexIndices (addVertex v s) w = Some k"
  by (auto simp: addVertex_def split: option.splits)

lemma addVertex_funpow_keeps_entries:
  "vertexIndices s w = Some k \<Longrightarrow> vertexIndices ((addVertex v ^^ N) s) w = Some k"
  by (induction N) (simp_all add: addVertex_keeps_entries)

lemma FbxSurface_new_wf: "FbxSurface_wf FbxSurface_new"
  by (simp add: FbxSurface_wf_def FbxSurface_new_def)

lemma unat_of_nat_le: "unat (of_nat k :: u32) \<le> k"
  by (simp add: unat_of_nat)

lemma addVertex_indexValid:
  assumes "FbxSurface_wf s" and "FbxSurface_indexValid s"
  shows "FbxSurface_indexValid (addVertex v s)"
proof (cases "vertexIndices s v")
  case None
  have "unat (of_nat (length (FbxSurface.vertices s)) :: u32) < Suc (length (FbxSurface.vertices s))"
    using unat_of_nat_le [of "length (FbxSurface.vertices s)"] by simp
  with assms(2) None show ?thesis
    by (auto simp: FbxSurface_indexValid_def addVertex_def less_Suc_eq)
next
  case (Some k)
  with assms(1) have "k < length (FbxSurface.vertices s)"
    by (simp add: FbxSurface_wf_def)
  with unat_of_nat_le [of k] have "unat (of_nat k :: u32) < length (FbxSurface.vertices s)"
    by simp
  with assms(2) Some show ?thesis
    by (auto simp: FbxSurface_indexValid_def addVertex_def)
qed

lemma addVertex_fresh_index:
  "FbxSurface_wf s \<Longrightarrow> vertexIndices s v = None \<Longrightarrow> vertexIndices s w = Some k \<Longrightarrow>
     k \<noteq> length (FbxSurface.vertices s)"
  by (auto simp: FbxSurface_wf_def)

text \<open>
  C6. Inserting the same vertex \<open>N \<ge> 1\<close> times through \<open>addVertex\<close> stores \<open>N\<close>
  identical indices. A vertex already in the index leaves the vertex array as it is; a new
  vertex is appended once and its index is \<open>len(vertices) - 1\<close>. Entries issued before
  keep their index, the index stays consistent with the vertex array, the index of a new
  vertex was issued to no other vertex, and on a fresh surface the vertex array ends with
  exactly one entry.
\<close>

theorem addVertex_dedup_idempotent:
  "1 \<le> N \<Longrightarrow>
     (case vertexIndices s v of
        Some k \<Rightarrow>
          FbxSurface.vertices ((addVertex v ^^ N) s) = FbxSurface.vertices s
          \<and> FbxSurface.indices ((addVertex v ^^ N) s)
              = FbxSurface.indices s @ replicate N (of_nat k)
      | None \<Rightarrow>
          FbxSurface.vertices ((addVertex v ^^ N) s) = FbxSurface.vertices s @ [v]
          \<and> FbxSurface.indices ((addVertex v ^^ N) s)
              = FbxSurface.indices s
                @ replicate N (of_nat (length (FbxSurface.vertices ((addVertex v ^^ N) s)) - 1))
          \<and> vertexIndices ((addVertex v ^^ N) s) v
              = Some (length (FbxSurface.vertices ((addVertex v ^^ N) s)) - 1))
     \<and> (\<forall>w k. vertexIndices s w = Some k \<longrightarrow> vertexIndices ((addVertex v ^^ N) s) w = Some k)
     \<and> (FbxSurface_wf s \<longrightarrow> FbxSurface_wf ((addVertex v ^^ N) s))
     \<and> (FbxSurface_wf s \<and> vertexIndices s v = None \<longrightarrow>
          (\<forall>w k. vertexIndices s w = Some k \<longrightarrow> k \<noteq> length (FbxSurface.vertices s)))
     \<and> FbxSurface.vertices ((addVertex v ^^ N) FbxSurface_new) = [v]
     \<and> FbxSurface.indices ((addVertex v ^^ N) FbxSurface_new) = replicate N 0"
proof -
  assume "1 \<le> N"
  then obtain M where N: "N = Suc M"
    by (cases N) simp_all
  have first: "case vertexIndices s v of
        Some k \<Rightarrow>
          FbxSurface.vertices ((addVertex v ^^ N) s) = FbxSurface.vertices s
          \<and> FbxSurface.indices ((addVertex v ^^ N) s)
              = FbxSurface.indices s @ replicate N (of_nat k)
      | None \<Rightarrow>
          FbxSurface.vertices ((addVertex v ^^ N) s) = FbxSurface.vertices s @ [v]
          \<and> FbxSurface.indices ((addVertex v ^^ N) s)
              = FbxSurface.indices s
                @ replicate N (of_nat (length (FbxSurface.vertices ((addVertex v ^^ N) s)) - 1))
          \<and> vertexIndices ((addVertex v ^^ N) s) v
              = Some (length (FbxSurface.vertices ((addVertex v ^^ N) s)) - 1)"
  proof (cases "vertexIndices s v")
    case None
    show ?thesis
      unfolding N addVertex_repeat_new [OF None] using None by simp
  next
    case (Some k)
    show ?thesis
      unfolding addVertex_repeat_known [OF Some] using Some by simp
  qed
  have none: "vertexIndices FbxSurface_new v = None"
    by (simp add: FbxSurface_new_def)
  have fresh: "FbxSurface.vertices ((addVertex v ^^ N) FbxSurface_new) = [v]
     \<and> FbxSurface.indices ((addVertex v ^^ N) FbxSurface_new) = replicate N 0"
    unfolding N addVertex_repeat_new [OF none] by (simp add: FbxSurface_new_def)
  from first fresh show ?thesis
    using addVertex_funpow_keeps_entries [where s = s and v = v and N = N]
      addVertex_funpow_wf [where s = s and v = v and N = N]
      addVertex_fresh_index [where s = s and v = v]
    by blast
qed

theorem addVertex_dedup_idempotent_witness:
  "FbxSurface.vertices
     ((addVertex (ConstructMeshVertex_defaults (Vector3 0 0 0)) ^^ 3) FbxSurface_new)
     = [ConstructMeshVertex_defaults (Vector3 0 0 0)]
   \<and> FbxSurface.indices
       ((addVertex (ConstructMeshVertex_defaults (Vector3 0 0 0)) ^^ 3) FbxSurface_new)
     = [0, 0, 0]"
proof -
  have "(1::nat) \<le> 3" by simp
  from addVertex_dedup_idempotent [OF this, where s = FbxSurface_new and v = "ConstructMeshVertex_defaults (Vector3 0 0 0)"]
  show ?thesis by (simp add: numeral_3_eq_3)
qed

section \<open>The aggregation pipeline\<close>

lemma reversedTriangles_short: "length xs < 3 \<Longrightarrow> reversedTriangles xs off = []"
  by (induction xs off rule: reversedTriangles.induct) simp_all

lemma reverseWinding_eq:
  "reverseWinding ixs off i out = out @ reversedTriangles (drop i ixs) off"
proof (induction ixs off i out rule: reverseWinding.induct)
  case (1 ixs off i out)
  show ?case
  proof (cases "i < length ixs - 2")
    case True
    then have d: "drop i ixs = ixs ! i # ixs ! (i + 1) # ixs ! (i + 2) # drop (i + 3) ixs"
      by (simp add: Cons_nth_drop_Suc numeral_3_eq_3)
    show ?thesis
      using True 1 by (subst reverseWinding.simps) (simp add: d)
  next
    case False
    then have "length (drop i ixs) < 3" by simp
    then have "reversedTriangles (drop i ixs) off = []"
      by (rule reversedTriangles_short)
    then show ?thesis
      using False by (subst reverseWinding.simps) simp
  qed
qed

lemma reversedTriangles_length: "length (reversedTriangles xs off) = 3 * (length xs div 3)"
  by (induction xs off rule: reversedTriangles.induct) simp_all

lemma reversedTriangles_set: "set (reversedTriangles xs off) \<subseteq> (\<lambda>x. x + off) ` set xs"
  by (induction xs off rule: reversedTriangles.induct) auto

lemma reversedTriangles_nth:
  "3 * k + 2 < length xs \<Longrightarrow>
     reversedTriangles xs off ! (3 * k) = xs ! (3 * k + 2) + off
     \<and> reversedTriangles xs off ! (3 * k + 1) = xs ! (3 * k + 1) + off
     \<and> reversedTriangles xs off ! (3 * k + 2) = xs ! (3 * k) + off"
proof (induction xs off arbitrary: k rule: reversedTriangles.induct)
  case (1 i0 i1 i2 rest off)
  show ?case
  proof (cases k)
    case 0
    then show ?thesis by simp
  next
    case (Suc j)
    with 1 have "3 * j + 2 < length rest" by simp
    from 1(1)[OF this] show ?thesis
      by (simp add: Suc numeral_3_eq_3)
  qed
qed simp_all

lemma unat_offset_bound:
  fixes a :: u32
  assumes "unat a < m"
  shows "unat (a + of_nat n) < n + m"
proof -
  have "unat (a + of_nat n) \<le> unat a + unat (of_nat n :: u32)"
    by (simp add: unat_word_ariths)
  also have "\<dots> \<le> unat a + n"
    by (simp add: unat_of_nat)
  finally show ?thesis using assms by simp
qed

lemma addSurface_accepted:
  assumes "3 \<le> length (FbxSurface.indices inc)"
  shows "addSurface inc T m =
     Inr (m(material inc \<mapsto>
        \<lparr> materialName = (case m (material inc) of None \<Rightarrow> material inc | Some s \<Rightarrow> materialName s),
          vertices = surfaceVertices m (material inc)
             @ map (transformVertex T (getTransposed (getFullInverse T))) (FbxSurface.vertices inc),
          indices = surfaceIndices m (material inc)
             @ reversedTriangles (FbxSurface.indices inc)
                 (of_nat (length (surfaceVertices m (material inc)))) \<rparr>))"
proof (cases "m (material inc)")
  case None
  with assms show ?thesis
    by (simp add: addSurface_def ensureSurface_def Let_def getActiveMaterial_def
        getVertexArray_def getIndexArray_def surfaceVertices_def surfaceIndices_def
        reverseWinding_eq)
next
  case (Some s)
  with assms show ?thesis
    by (cases s) (simp add: addSurface_def ensureSurface_def Let_def getActiveMaterial_def
        getVertexArray_def getIndexArray_def surfaceVertices_def surfaceIndices_def
        reverseWinding_eq)
qed

lemma addSurface_rejected:
  assumes "length (FbxSurface.indices inc) < 3"
  shows "addSurface inc T m =
     Inl (runtime_error ''Rejecting model surface with less than 3 indices.'',
          (case m (material inc) of
             None \<Rightarrow> m(material inc \<mapsto> \<lparr> materialName = material inc, vertices = [], indices = [] \<rparr>)
           | Some s \<Rightarrow> m))"
  using assms
  by (simp add: addSurface_def ensureSurface_def Let_def getActiveMaterial_def
      getVertexArray_def getIndexArray_def split: option.splits)

lemma triangleSurface_eval:
  "FbxSurface.indices (triangleSurface name) = [0, 1, 2]"
  "FbxSurface.vertices (triangleSurface name) =
     [ConstructMeshVertex_defaults (Vector3 0 0 0), ConstructMeshVertex_defaults (Vector3 1 0 0),
      ConstructMeshVertex_defaults (Vector3 0 1 0)]"
  "material (triangleSurface name) = name"
  by (simp_all add: triangleSurface_def addVertex_def FbxSurface_new_def
      ConstructMeshVertex_defaults_def)

lemma identity_normal_matrix:
  "getTransposed (getFullInverse getIdentity) = getIdentity"
  by (simp add: getTransposed_def getFullInverse_def getIdentity_def byColumns_def
      fullDeterminant_def minor3x3_11_def minor3x3_21_def minor3x3_31_def minor3x3_41_def)

lemma transformVertex_identity_defaults:
  "transformVertex getIdentity getIdentity (ConstructMeshVertex_defaults p) = ConstructMeshVertex_defaults p"
  by (cases p) (simp add: transformVertex_def getIdentity_def byColumns_def transformPoint_def
      getNormalised_def getLength_def ConstructMeshVertex_defaults_def)

text \<open>
  C10. When \<open>addSurface\<close> is called with a material that has no entry yet and with fewer
  than 3 indices, it throws, and the exporter is left with a new entry for that material
  holding an empty surface: \<open>ensureSurface\<close> runs before the index count is tested. The
  exporter is therefore not the one it was before the call.
\<close>

theorem addSurface_rejection_creates_entry:
  "m (material inc) = None \<Longrightarrow> length (FbxSurface.indices inc) < 3 \<Longrightarrow>
     addSurface inc T m =
       Inl (runtime_error ''Rejecting model surface with less than 3 indices.'',
            m(material inc \<mapsto> \<lparr> materialName = material inc, vertices = [], indices = [] \<rparr>))
     \<and> m(material inc \<mapsto> \<lparr> materialName = material inc, vertices = [], indices = [] \<rparr>) \<noteq> m"
proof -
  assume none: "m (material inc) = None" and short: "length (FbxSurface.indices inc) < 3"
  have "m(material inc \<mapsto> \<lparr> materialName = material inc, vertices = [], indices = [] \<rparr>) \<noteq> m"
  proof
    assume "m(material inc \<mapsto> \<lparr> materialName = material inc, vertices = [], indices = [] \<rparr>) = m"
    then have "(m(material inc \<mapsto> \<lparr> materialName = material inc, vertices = [], indices = [] \<rparr>))
                 (material inc) = m (material inc)"
      by simp
    with none show False by simp
  qed
  then show ?thesis
    using addSurface_rejected [OF short, where T = T and m = m] none by simp
qed

theorem addSurface_rejection_creates_entry_witness:
  "addSurface (FbxSurface_new\<lparr> material := ''a'' \<rparr>) getIdentity Map.empty =
       Inl (runtime_error ''Rejecting model surface with less than 3 indices.'',
            [''a'' \<mapsto> \<lparr> materialName = ''a'', vertices = [], indices = [] \<rparr>])"
proof -
  have a: "Map.empty (material (FbxSurface_new\<lparr> material := ''a'' \<rparr>)) = (None :: Surface option)"
    by simp
  have b: "length (FbxSurface.indices (FbxSurface_new\<lparr> material := ''a'' \<rparr>)) < 3"
    by (simp add: FbxSurface_new_def)
  from addSurface_rejection_creates_entry [OF a b, where T = getIdentity]
  show ?thesis by simp
qed

lemma addSurface_other_material:
  "addSurface inc T m = Inr m' \<Longrightarrow> n \<noteq> material inc \<Longrightarrow> m' n = m n"
  by (auto simp: addSurface_def ensureSurface_def Let_def getActiveMaterial_def
      split: option.splits if_splits)

lemma addSurface_Inr_length:
  "addSurface inc T m = Inr m' \<Longrightarrow> 3 \<le> length (FbxSurface.indices inc)"
  by (auto simp: addSurface_def ensureSurface_def Let_def getIndexArray_def
      split: option.splits if_splits prod.splits)

lemma surfaceIndices_valid:
  assumes "\<forall>n s. m n = Some s \<longrightarrow> Surface_indexValid s"
  shows "(\<forall>idx \<in> set (surfaceIndices m n). unat idx < length (surfaceVertices m n))
         \<and> length (surfaceIndices m n) mod 3 = 0"
  using assms
  by (cases "m n") (auto simp: surfaceIndices_def surfaceVertices_def Surface_indexValid_def)

lemma addSurface_preserves_indexValid:
  assumes inc: "FbxSurface_indexValid inc"
    and inv: "\<forall>n s. m n = Some s \<longrightarrow> Surface_indexValid s"
    and res: "addSurface inc T m = Inr m'"
  shows "\<forall>n s. m' n = Some s \<longrightarrow> Surface_indexValid s"
proof (intro allI impI)
  fix n s
  assume s: "m' n = Some s"
  show "Surface_indexValid s"
  proof (cases "n = material inc")
    case False
    with addSurface_other_material [OF res] s inv show ?thesis by simp
  next
    case True
    let ?old_v = "surfaceVertices m (material inc)"
    let ?old_i = "surfaceIndices m (material inc)"
    let ?off = "of_nat (length ?old_v) :: u32"
    from addSurface_Inr_length [OF res] have len: "3 \<le> length (FbxSurface.indices inc)" .
    from addSurface_accepted [OF len, of T m] res s True
    have v: "Surface.vertices s = ?old_v
               @ map (transformVertex T (getTransposed (getFullInverse T))) (FbxSurface.vertices inc)"
      and i: "Surface.indices s = ?old_i @ reversedTriangles (FbxSurface.indices inc) ?off"
      by auto
    from surfaceIndices_valid [OF inv, of "material inc"]
    have old: "\<forall>idx \<in> set ?old_i. unat idx < length ?old_v"
      and old3: "length ?old_i mod 3 = 0"
      by simp_all
    have new: "unat idx < length (Surface.vertices s)"
      if "idx \<in> set (reversedTriangles (FbxSurface.indices inc) ?off)" for idx
    proof -
      from that reversedTriangles_set obtain x
        where x: "x \<in> set (FbxSurface.indices inc)" and idx: "idx = x + ?off"
        by blast
      from inc x have "unat x < length (FbxSurface.vertices inc)"
        by (simp add: FbxSurface_indexValid_def)
      from unat_offset_bound [OF this, of "length ?old_v"] show ?thesis
        by (simp add: v idx)
    qed
    have "\<forall>idx \<in> set (Surface.indices s). unat idx < length (Surface.vertices s)"
    proof
      fix idx assume "idx \<in> set (Surface.indices s)"
      then consider "idx \<in> set ?old_i"
        | "idx \<in> set (reversedTriangles (FbxSurface.indices inc) ?off)"
        by (auto simp: i)
      then show "unat idx < length (Surface.vertices s)"
      proof cases
        case 1
        with old have "unat idx < length ?old_v" by blast
        then show ?thesis by (simp add: v)
      next
        case 2
        then show ?thesis by (rule new)
      qed
    qed
    moreover have "length (Surface.indices s) mod 3 = 0"
      using old3 by (simp add: i reversedTriangles_length)
    ultimately show ?thesis
      by (simp add: Surface_indexValid_def)
  qed
qed

lemma addSurfaceCalls_preserves_indexValid:
  assumes "\<forall>(inc, T) \<in> set calls. FbxSurface_indexValid inc"
    and "\<forall>n s. m n = Some s \<longrightarrow> Surface_indexValid s"
    and "addSurfaceCalls calls m = Inr m'"
  shows "\<forall>n s. m' n = Some s \<longrightarrow> Surface_indexValid s"
  using assms
proof (induction calls arbitrary: m)
  case Nil
  then show ?case by simp
next
  case (Cons c calls)
  obtain inc T where c: "c = (inc, T)" by (cases c)
  from Cons.prems(3) obtain m1 where m1: "addSurface inc T m = Inr m1"
    and rest: "addSurfaceCalls calls m1 = Inr m'"
    by (auto simp: c split: sum.splits)
  from Cons.prems(1) have inc: "FbxSurface_indexValid inc"
    and others: "\<forall>(inc, T) \<in> set calls. FbxSurface_indexValid inc"
    by (simp_all add: c)
  from addSurface_preserves_indexValid [OF inc Cons.prems(2) m1]
  have "\<forall>n s. m1 n = Some s \<longrightarrow> Surface_indexValid s" .
  from Cons.IH [OF others this rest] show ?case .
qed

lemma addSurface_triangle_first:
  "addSurface (triangleSurface name) getIdentity Map.empty =
     Inr [name \<mapsto>
       \<lparr> materialName = name,
         vertices = [ConstructMeshVertex_defaults (Vector3 0 0 0),
                     ConstructMeshVertex_defaults (Vector3 1 0 0),
                     ConstructMeshVertex_defaults (Vector3 0 1 0)],
         indices = [2, 1, 0] \<rparr>]"
proof -
  have "3 \<le> length (FbxSurface.indices (triangleSurface name))"
    by (simp add: triangleSurface_eval)
  from addSurface_accepted [OF this, of getIdentity Map.empty] show ?thesis
    by (simp add: triangleSurface_eval identity_normal_matrix transformVertex_identity_defaults
        surfaceVertices_def surfaceIndices_def)
qed

lemma addSurface_triangle_second:
  "addSurface (triangleSurface name) getIdentity
     [name \<mapsto>
       \<lparr> materialName = name,
         vertices = [ConstructMeshVertex_defaults (Vector3 0 0 0),
                     ConstructMeshVertex_defaults (Vector3 1 0 0),
                     ConstructMeshVertex_defaults (Vector3 0 1 0)],
         indices = [2, 1, 0] \<rparr>] =
     Inr [name \<mapsto>
       \<lparr> materialName = name,
         vertices = [ConstructMeshVertex_defaults (Vector3 0 0 0),
                     ConstructMeshVertex_defaults (Vector3 1 0 0),
                     ConstructMeshVertex_defaults (Vector3 0 1 0),
                     ConstructMeshVertex_defaults (Vector3 0 0 0),
                     ConstructMeshVertex_defaults (Vector3 1 0 0),
                     ConstructMeshVertex_defaults (Vector3 0 1 0)],
         indices = [2, 1, 0, 5, 4, 3] \<rparr>]"
proof -
  have "3 \<le> length (FbxSurface.indices (triangleSurface name))"
    by (simp add: triangleSurface_eval)
  from addSurface_accepted [OF this, of getIdentity] show ?thesis
    by (simp add: triangleSurface_eval identity_normal_matrix transformVertex_identity_defaults
        surfaceVertices_def surfaceIndices_def)
qed

lemma triangleSurface_indexValid: "FbxSurface_indexValid (triangleSurface name)"
  by (simp add: FbxSurface_indexValid_def triangleSurface_eval)

text \<open>
  C5. Start from the empty export job and run any sequence of \<open>addSurface\<close> calls that
  are all accepted, each incoming surface satisfying its own index validity. Then every
  surface of the job has all its indices strictly below the length of its vertex array, and
  the length of its index buffer is a multiple of 3. The indices are 32-bit words and the
  offset addition may wrap; the bound holds all the same.
\<close>

theorem pipeline_index_validity:
  "(\<forall>(inc, T) \<in> set calls. FbxSurface_indexValid inc) \<Longrightarrow>
   addSurfaceCalls calls Map.empty = Inr m \<Longrightarrow>
   m name = Some s \<Longrightarrow>
     (\<forall>idx \<in> set (Surface.indices s). unat idx < length (Surface.vertices s))
     \<and> length (Surface.indices s) mod 3 = 0"
proof -
  assume a: "\<forall>(inc, T) \<in> set calls. FbxSurface_indexValid inc"
    and b: "addSurfaceCalls calls Map.empty = Inr m"
    and c: "m name = Some s"
  have "\<forall>n s. (Map.empty :: Surfaces) n = Some s \<longrightarrow> Surface_indexValid s"
    by simp
  from addSurfaceCalls_preserves_indexValid [OF a this b] c
  have "Surface_indexValid s" by blast
  then show ?thesis by (simp add: Surface_indexValid_def)
qed

theorem pipeline_index_validity_witness:
  "addSurfaceCalls [(triangleSurface ''m'', getIdentity)] Map.empty
     = Inr [''m'' \<mapsto>
         \<lparr> materialName = ''m'',
           vertices = [ConstructMeshVertex_defaults (Vector3 0 0 0),
                       ConstructMeshVertex_defaults (Vector3 1 0 0),
                       ConstructMeshVertex_defaults (Vector3 0 1 0)],
           indices = [2, 1, 0] \<rparr>]
   \<and> FbxSurface.indices (triangleSurface ''m'') = [0, 1, 2]
   \<and> length (FbxSurface.vertices (triangleSurface ''m'')) = 3
   \<and> unat (2 :: u32) < 3 \<and> unat (1 :: u32) < 3 \<and> unat (0 :: u32) < 3
   \<and> length [2 :: u32, 1, 0] mod 3 = 0"
proof -
  let ?S = "\<lparr> materialName = ''m'',
           vertices = [ConstructMeshVertex_defaults (Vector3 0 0 0),
                       ConstructMeshVertex_defaults (Vector3 1 0 0),
                       ConstructMeshVertex_defaults (Vector3 0 1 0)],
           indices = [2 :: u32, 1, 0] \<rparr>"
  have valid: "\<forall>(inc, T) \<in> set [(triangleSurface ''m'', getIdentity)]. FbxSurface_indexValid inc"
    by (simp add: triangleSurface_indexValid)
  have run: "addSurfaceCalls [(triangleSurface ''m'', getIdentity)] Map.empty = Inr [''m'' \<mapsto> ?S]"
    by (simp add: addSurface_triangle_first)
  have entry: "[''m'' \<mapsto> ?S] ''m'' = Some ?S"
    by simp
  from pipeline_index_validity [OF valid run entry] run
  show ?thesis by (simp add: triangleSurface_eval)
qed

text \<open>
  C1 (as amended). An accepted \<open>addSurface\<close> call appends the transformed vertices of the
  incoming surface, in order, to the vertex array of the target surface; no lookup for an
  equal vertex is made in the target. The position is transformed by the matrix, the normal
  by the transposed full inverse and then normalised, texcoord and colour are copied.
  Surfaces of other materials keep their vertices.
\<close>

theorem addSurface_appends_transformed_vertices:
  "3 \<le> length (FbxSurface.indices inc) \<Longrightarrow>
     (\<exists>m'. addSurface inc T m = Inr m'
        \<and> surfaceVertices m' (material inc)
            = surfaceVertices m (material inc)
              @ map (\<lambda>mv. \<lparr> vertex = transformPoint T (vertex mv),
                             normal = getNormalised
                               (transformPoint (getTransposed (getFullInverse T)) (normal mv)),
                             texcoord = texcoord mv,
                             colour = colour mv \<rparr>)
                    (FbxSurface.vertices inc)
        \<and> (\<forall>n. n \<noteq> material inc \<longrightarrow> surfaceVertices m' n = surfaceVertices m n))"
proof -
  assume len: "3 \<le> length (FbxSurface.indices inc)"
  have tv: "transformVertex T (getTransposed (getFullInverse T))
      = (\<lambda>mv. \<lparr> vertex = transformPoint T (vertex mv),
                 normal = getNormalised
                   (transformPoint (getTransposed (getFullInverse T)) (normal mv)),
                 texcoord = texcoord mv,
                 colour = colour mv \<rparr>)"
    by (rule ext) (simp add: transformVertex_def)
  show ?thesis
    unfolding addSurface_accepted [OF len] tv [symmetric]
    by (simp add: surfaceVertices_def)
qed

theorem addSurface_appends_transformed_vertices_witness:
  "3 \<le> length (FbxSurface.indices (triangleSurface ''m''))
   \<and> surfaceVertices (Map.empty :: Surfaces) ''m'' = []
   \<and> FbxSurface.vertices (triangleSurface ''m'')
       = [ConstructMeshVertex_defaults (Vector3 0 0 0),
          ConstructMeshVertex_defaults (Vector3 1 0 0),
          ConstructMeshVertex_defaults (Vector3 0 1 0)]
   \<and> addSurface (triangleSurface ''m'') getIdentity Map.empty
       = Inr [''m'' \<mapsto>
           \<lparr> materialName = ''m'',
             vertices = [ConstructMeshVertex_defaults (Vector3 0 0 0),
                         ConstructMeshVertex_defaults (Vector3 1 0 0),
                         ConstructMeshVertex_defaults (Vector3 0 1 0)],
             indices = [2, 1, 0] \<rparr>]"
proof -
  have len: "3 \<le> length (FbxSurface.indices (triangleSurface ''m''))"
    by (simp add: triangleSurface_eval)
  from addSurface_appends_transformed_vertices [OF len, of getIdentity Map.empty]
  obtain m' where "addSurface (triangleSurface ''m'') getIdentity Map.empty = Inr m'"
    by blast
  with len show ?thesis
    by (simp add: addSurface_triangle_first surfaceVertices_def triangleSurface_eval)
qed

text \<open>
  C1 as stated fails: the same triangle added twice for one material under the identity
  transform leaves six vertices in the target surface, each corner twice.
\<close>

theorem addSurface_target_dedup_counterexample:
  "addSurfaceCalls [(triangleSurface ''m'', getIdentity), (triangleSurface ''m'', getIdentity)]
     Map.empty =
     Inr [''m'' \<mapsto>
       \<lparr> materialName = ''m'',
         vertices = [ConstructMeshVertex_defaults (Vector3 0 0 0),
                     ConstructMeshVertex_defaults (Vector3 1 0 0),
                     ConstructMeshVertex_defaults (Vector3 0 1 0),
                     ConstructMeshVertex_defaults (Vector3 0 0 0),
                     ConstructMeshVertex_defaults (Vector3 1 0 0),
                     ConstructMeshVertex_defaults (Vector3 0 1 0)],
         indices = [2, 1, 0, 5, 4, 3] \<rparr>]
   \<and> \<not> distinct [ConstructMeshVertex_defaults (Vector3 0 0 0),
                   ConstructMeshVertex_defaults (Vector3 1 0 0),
                   ConstructMeshVertex_defaults (Vector3 0 1 0),
                   ConstructMeshVertex_defaults (Vector3 0 0 0),
                   ConstructMeshVertex_defaults (Vector3 1 0 0),
                   ConstructMeshVertex_defaults (Vector3 0 1 0)]"
  by (simp add: addSurface_triangle_first addSurface_triangle_second)

text \<open>
  C4. An accepted \<open>addSurface\<close> call keeps the indices already in the target surface and
  appends, for every complete triple \<open>(i0, i1, i2)\<close> of the source list, the three indices
  in the order \<open>(i2, i1, i0)\<close>, each plus the vertex count the target had when the call
  started (as an \<open>unsigned int\<close>). The loop agrees with \<open>reversedTriangles\<close>. The
  vertices are appended in their source order whatever the indices are, and a fresh surface
  fed \<open>(0, 1, 2)\<close> ends with \<open>(2, 1, 0)\<close>.
\<close>

theorem addSurface_reverses_winding:
  "3 \<le> length (FbxSurface.indices inc) \<Longrightarrow>
     (\<exists>m'. addSurface inc T m = Inr m'
        \<and> take (length (surfaceIndices m (material inc))) (surfaceIndices m' (material inc))
            = surfaceIndices m (material inc)
        \<and> length (surfaceIndices m' (material inc))
            = length (surfaceIndices m (material inc)) + 3 * (length (FbxSurface.indices inc) div 3)
        \<and> (\<forall>k. 3 * k + 2 < length (FbxSurface.indices inc) \<longrightarrow>
              surfaceIndices m' (material inc) ! (length (surfaceIndices m (material inc)) + 3 * k)
                = FbxSurface.indices inc ! (3 * k + 2)
                  + of_nat (length (surfaceVertices m (material inc)))
            \<and> surfaceIndices m' (material inc) ! (length (surfaceIndices m (material inc)) + 3 * k + 1)
                = FbxSurface.indices inc ! (3 * k + 1)
                  + of_nat (length (surfaceVertices m (material inc)))
            \<and> surfaceIndices m' (material inc) ! (length (surfaceIndices m (material inc)) + 3 * k + 2)
                = FbxSurface.indices inc ! (3 * k)
                  + of_nat (length (surfaceVertices m (material inc))))
        \<and> surfaceIndices m' (material inc)
            = surfaceIndices m (material inc)
              @ reversedTriangles (FbxSurface.indices inc)
                  (of_nat (length (surfaceVertices m (material inc))))
        \<and> surfaceVertices m' (material inc)
            = surfaceVertices m (material inc)
              @ map (transformVertex T (getTransposed (getFullInverse T))) (FbxSurface.vertices inc)
        \<and> (m (material inc) = None \<and> FbxSurface.indices inc = [0, 1, 2]
              \<longrightarrow> surfaceIndices m' (material inc) = [2, 1, 0]))"
proof -
  assume len: "3 \<le> length (FbxSurface.indices inc)"
  let ?old = "surfaceIndices m (material inc)"
  let ?off = "of_nat (length (surfaceVertices m (material inc))) :: u32"
  let ?new = "?old @ reversedTriangles (FbxSurface.indices inc) ?off"
  let ?m' = "m(material inc \<mapsto>
        \<lparr> materialName = (case m (material inc) of None \<Rightarrow> material inc | Some s \<Rightarrow> materialName s),
          vertices = surfaceVertices m (material inc)
             @ map (transformVertex T (getTransposed (getFullInverse T))) (FbxSurface.vertices inc),
          indices = ?new \<rparr>)"
  have res: "addSurface inc T m = Inr ?m'"
    by (rule addSurface_accepted [OF len])
  have new: "surfaceIndices ?m' (material inc) = ?new"
    by (simp add: surfaceIndices_def)
  have vs: "surfaceVertices ?m' (material inc) = surfaceVertices m (material inc)
              @ map (transformVertex T (getTransposed (getFullInverse T))) (FbxSurface.vertices inc)"
    by (simp add: surfaceVertices_def)
  have nth: "?new ! (length ?old + 3 * k) = FbxSurface.indices inc ! (3 * k + 2) + ?off
      \<and> ?new ! (length ?old + 3 * k + 1) = FbxSurface.indices inc ! (3 * k + 1) + ?off
      \<and> ?new ! (length ?old + 3 * k + 2) = FbxSurface.indices inc ! (3 * k) + ?off"
    if "3 * k + 2 < length (FbxSurface.indices inc)" for k
    using reversedTriangles_nth [OF that, of ?off]
    by (simp add: nth_append add.assoc)
  have fresh: "?new = [2, 1, 0]"
    if "m (material inc) = None" "FbxSurface.indices inc = [0, 1, 2]"
    using that by (simp add: surfaceIndices_def surfaceVertices_def)
  show ?thesis
    unfolding res
    apply (intro exI [of _ ?m'] conjI)
          apply (rule refl)
         apply (simp add: new)
        apply (simp add: new reversedTriangles_length)
       apply (simp only: new)
       apply (intro allI impI)
       apply (erule nth)
      apply (rule new)
     apply (rule vs)
    apply (simp only: new)
    apply (intro impI)
    apply (erule conjE)
    apply (erule (1) fresh)
    done
qed

theorem addSurface_reverses_winding_witness:
  "3 \<le> length (FbxSurface.indices (triangleSurface ''m''))
   \<and> FbxSurface.indices (triangleSurface ''m'') = [0, 1, 2]
   \<and> addSurface (triangleSurface ''m'') getIdentity Map.empty
       = Inr [''m'' \<mapsto>
           \<lparr> materialName = ''m'',
             vertices = [ConstructMeshVertex_defaults (Vector3 0 0 0),
                         ConstructMeshVertex_defaults (Vector3 1 0 0),
                         ConstructMeshVertex_defaults (Vector3 0 1 0)],
             indices = [2, 1, 0] \<rparr>]"
proof -
  have len: "3 \<le> length (FbxSurface.indices (triangleSurface ''m''))"
    by (simp add: triangleSurface_eval)
  from addSurface_reverses_winding [OF len, of getIdentity Map.empty]
  obtain m' where "addSurface (triangleSurface ''m'') getIdentity Map.empty = Inr m'"
    and "surfaceIndices m' ''m'' = [2, 1, 0]"
    by (auto simp: triangleSurface_eval)
  with len show ?thesis
    by (simp add: addSurface_triangle_first triangleSurface_eval)
qed

lemma ExportFbxMesh_addSurfaces_append:
  "ExportFbxMesh_addSurfaces (xs @ ys) T m =
     (case ExportFbxMesh_addSurfaces xs T m of
        Inl e \<Rightarrow> Inl e
      | Inr m1 \<Rightarrow> ExportFbxMesh_addSurfaces ys T m1)"
  by (induction xs arbitrary: m) (simp_all split: sum.splits)

text \<open>
  C2 (as amended). \<open>addSurface\<close> with fewer than 3 indices throws the
  \<open>std::runtime_error\<close> ``Rejecting model surface with less than 3 indices.''; no surface
  gains a vertex or an index and every surface present before is kept. The error is not
  handled per surface: when the surfaces before the rejected one are accepted, the loop of
  \<open>ExportFbxMesh\<close> ends with that error at the rejected surface, and the surfaces after it
  are not aggregated, whatever they are.
\<close>

theorem addSurface_rejection_aborts_loop:
  "length (FbxSurface.indices bad) < 3 \<Longrightarrow>
     (\<exists>m'. addSurface bad T m
              = Inl (runtime_error ''Rejecting model surface with less than 3 indices.'', m')
        \<and> (\<forall>n. surfaceVertices m' n = surfaceVertices m n
                \<and> surfaceIndices m' n = surfaceIndices m n)
        \<and> (\<forall>n s. m n = Some s \<longrightarrow> m' n = Some s))
     \<and> (\<forall>m1. ExportFbxMesh_addSurfaces before T m = Inr m1 \<longrightarrow>
           (\<exists>m2. ExportFbxMesh_addSurfaces (before @ bad # after) T m
                    = Inl (runtime_error ''Rejecting model surface with less than 3 indices.'', m2)
              \<and> (\<forall>n. surfaceVertices m2 n = surfaceVertices m1 n
                      \<and> surfaceIndices m2 n = surfaceIndices m1 n)))"
proof -
  assume short: "length (FbxSurface.indices bad) < 3"
  have one: "\<exists>m'. addSurface bad T m
              = Inl (runtime_error ''Rejecting model surface with less than 3 indices.'', m')
        \<and> (\<forall>n. surfaceVertices m' n = surfaceVertices m n
                \<and> surfaceIndices m' n = surfaceIndices m n)
        \<and> (\<forall>n s. m n = Some s \<longrightarrow> m' n = Some s)" for m
    unfolding addSurface_rejected [OF short]
    by (cases "m (material bad)") (auto simp: surfaceVertices_def surfaceIndices_def)
  have loop: "\<exists>m2. ExportFbxMesh_addSurfaces (before @ bad # after) T m
                    = Inl (runtime_error ''Rejecting model surface with less than 3 indices.'', m2)
              \<and> (\<forall>n. surfaceVertices m2 n = surfaceVertices m1 n
                      \<and> surfaceIndices m2 n = surfaceIndices m1 n)"
    if "ExportFbxMesh_addSurfaces before T m = Inr m1" for m1
  proof -
    from one [of m1] obtain m2 where
      "addSurface bad T m1
         = Inl (runtime_error ''Rejecting model surface with less than 3 indices.'', m2)"
      and "\<forall>n. surfaceVertices m2 n = surfaceVertices m1 n
             \<and> surfaceIndices m2 n = surfaceIndices m1 n"
      by blast
    then show ?thesis
      using that by (simp add: ExportFbxMesh_addSurfaces_append)
  qed
  from one [of m] loop show ?thesis by blast
qed

theorem addSurface_rejection_aborts_loop_witness:
  "length (FbxSurface.indices (FbxSurface_new\<lparr> material := ''a'' \<rparr>)) < 3
   \<and> ExportFbxMesh_addSurfaces [triangleSurface ''m''] getIdentity Map.empty
       = Inr [''m'' \<mapsto>
           \<lparr> materialName = ''m'',
             vertices = [ConstructMeshVertex_defaults (Vector3 0 0 0),
                         ConstructMeshVertex_defaults (Vector3 1 0 0),
                         ConstructMeshVertex_defaults (Vector3 0 1 0)],
             indices = [2, 1, 0] \<rparr>]
   \<and> ExportFbxMesh_addSurfaces
         ([triangleSurface ''m''] @ FbxSurface_new\<lparr> material := ''a'' \<rparr> # [triangleSurface ''b''])
         getIdentity Map.empty
       = Inl (runtime_error ''Rejecting model surface with less than 3 indices.'',
           [''m'' \<mapsto>
             \<lparr> materialName = ''m'',
               vertices = [ConstructMeshVertex_defaults (Vector3 0 0 0),
                           ConstructMeshVertex_defaults (Vector3 1 0 0),
                           ConstructMeshVertex_defaults (Vector3 0 1 0)],
               indices = [2, 1, 0] \<rparr>,
            ''a'' \<mapsto> \<lparr> materialName = ''a'', vertices = [], indices = [] \<rparr>])"
proof -
  have short: "length (FbxSurface.indices (FbxSurface_new\<lparr> material := ''a'' \<rparr>)) < 3"
    by (simp add: FbxSurface_new_def)
  have before: "ExportFbxMesh_addSurfaces [triangleSurface ''m''] getIdentity Map.empty
       = Inr [''m'' \<mapsto>
           \<lparr> materialName = ''m'',
             vertices = [ConstructMeshVertex_defaults (Vector3 0 0 0),
                         ConstructMeshVertex_defaults (Vector3 1 0 0),
                         ConstructMeshVertex_defaults (Vector3 0 1 0)],
             indices = [2, 1, 0] \<rparr>]"
    by (simp add: addSurface_triangle_first)
  from addSurface_rejection_aborts_loop
         [OF short, of getIdentity Map.empty "[triangleSurface ''m'']" "[triangleSurface ''b'']"]
       before
  obtain m2 where "ExportFbxMesh_addSurfaces
         ([triangleSurface ''m''] @ FbxSurface_new\<lparr> material := ''a'' \<rparr> # [triangleSurface ''b''])
         getIdentity Map.empty
       = Inl (runtime_error ''Rejecting model surface with less than 3 indices.'', m2)"
    by blast
  with short before show ?thesis
    by (simp add: addSurface_triangle_first addSurface_rejected)
qed

text \<open>
  C2 as stated fails: a surface of material \<open>a\<close> without indices followed by a valid
  triangle of material \<open>b\<close> ends the loop with the error, and material \<open>b\<close> never
  reaches the export job.
\<close>

theorem addSurface_rejection_aborts_loop_counterexample:
  "ExportFbxMesh_addSurfaces [FbxSurface_new\<lparr> material := ''a'' \<rparr>, triangleSurface ''b'']
     getIdentity Map.empty
   = Inl (runtime_error ''Rejecting model surface with less than 3 indices.'',
          [''a'' \<mapsto> \<lparr> materialName = ''a'', vertices = [], indices = [] \<rparr>])"
proof -
  have "length (FbxSurface.indices (FbxSurface_new\<lparr> material := ''a'' \<rparr>)) < 3"
    by (simp add: FbxSurface_new_def)
  from addSurface_rejected [OF this, of getIdentity Map.empty] show ?thesis
    by simp
qed

















section \<open>Committing the export stream\<close>

lemma tempFile_not_target: "path_append dir (''_'' @ name) \<noteq> path_append dir name"
  by (simp add: path_append_def)

text \<open>
  C3. Let the stream be open and its temporary file exist. \<open>close\<close> first closes the
  stream, which flushes the temporary file to its full content. If the target exists and
  its removal fails, a \<open>runtime_error\<close> is thrown with the target untouched. Otherwise the
  target is removed if it existed; if the rename then fails, a \<open>runtime_error\<close> is thrown
  with the target absent and the temporary file still at its path with the full content.
  If the rename succeeds, the target holds the full content and the temporary file is gone.
  In no outcome does the target hold anything but its previous content, nothing, or the
  full content.
\<close>

theorem ExportStream_close_outcomes:
  "fs (tempFile s) = Some written \<Longrightarrow>
   is_open (tempStream s) \<Longrightarrow>
   tempFile s = path_append (outputDirectory s) (''_'' @ filename s) \<Longrightarrow>
   target = path_append (outputDirectory s) (filename s) \<Longrightarrow>
   full = written @ unflushed (tempStream s) \<Longrightarrow>
   closed_stream = s\<lparr> tempStream := \<lparr> is_open = False, unflushed = [] \<rparr> \<rparr> \<Longrightarrow>
     (fs target = Some previous \<longrightarrow>
        ExportStream_close (Fails what) renaming s fs
          = Inl (runtime_error (''Could not remove the existing file '' @ target @ '': '' @ what),
                 closed_stream, fs(tempFile s \<mapsto> full))
        \<and> (fs(tempFile s \<mapsto> full)) target = Some previous)
     \<and> ExportStream_close Succeeds (Fails what) s fs
          = Inl (runtime_error (''Could not rename the temporary file: '' @ tempFile s),
                 closed_stream, (fs(tempFile s \<mapsto> full))(target := None))
     \<and> ((fs(tempFile s \<mapsto> full))(target := None)) (tempFile s) = Some full
     \<and> ((fs(tempFile s \<mapsto> full))(target := None)) target = None
     \<and> (fs target = None \<longrightarrow>
          ExportStream_close removal (Fails what) s fs
            = Inl (runtime_error (''Could not rename the temporary file: '' @ tempFile s),
                   closed_stream, fs(tempFile s \<mapsto> full)))
     \<and> ExportStream_close Succeeds Succeeds s fs
          = Inr (closed_stream, (fs(tempFile s := None))(target \<mapsto> full))
     \<and> (fs target = None \<longrightarrow>
          ExportStream_close removal Succeeds s fs
            = Inr (closed_stream, (fs(tempFile s := None))(target \<mapsto> full)))"
proof -
  assume temp: "fs (tempFile s) = Some written"
    and opened: "is_open (tempStream s)"
    and path: "tempFile s = path_append (outputDirectory s) (''_'' @ filename s)"
    and target: "target = path_append (outputDirectory s) (filename s)"
    and full: "full = written @ unflushed (tempStream s)"
    and closed_stream: "closed_stream = s\<lparr> tempStream := \<lparr> is_open = False, unflushed = [] \<rparr> \<rparr>"
  have ne: "tempFile s \<noteq> target"
    unfolding path target by (rule tempFile_not_target)
  have ne': "target \<noteq> tempFile s"
    using ne by blast
  have flush: "ofstream_close (tempFile s) (tempStream s) fs
      = (\<lparr> is_open = False, unflushed = [] \<rparr>, fs(tempFile s \<mapsto> full))"
    using temp opened by (simp add: ofstream_close_def full)
  have remove_fails: "ExportStream_close (Fails what) renaming s fs
          = Inl (runtime_error (''Could not remove the existing file '' @ target @ '': '' @ what),
                 closed_stream, fs(tempFile s \<mapsto> full))
        \<and> (fs(tempFile s \<mapsto> full)) target = Some previous"
    if "fs target = Some previous"
    using that ne ne'
    by (simp add: ExportStream_close_def flush fs_exists_def fs_remove_def
        target [symmetric] closed_stream)
  have rename_fails: "ExportStream_close Succeeds (Fails what) s fs
          = Inl (runtime_error (''Could not rename the temporary file: '' @ tempFile s),
                 closed_stream, (fs(tempFile s \<mapsto> full))(target := None))"
    using ne ne'
    by (cases "fs target")
       (simp_all add: ExportStream_close_def flush fs_exists_def fs_remove_def fs_rename_def
          target [symmetric] closed_stream fun_upd_idem)
  have rename_fails_absent: "ExportStream_close removal (Fails what) s fs
            = Inl (runtime_error (''Could not rename the temporary file: '' @ tempFile s),
                   closed_stream, fs(tempFile s \<mapsto> full))"
    if "fs target = None"
    using that ne ne'
    by (simp add: ExportStream_close_def flush fs_exists_def fs_rename_def
        target [symmetric] closed_stream)
  have upd: "((fs(tempFile s \<mapsto> full))(target := None))(tempFile s := None, target \<mapsto> full)
      = (fs(tempFile s := None))(target \<mapsto> full)"
    using ne by (auto simp: fun_eq_iff)
  have upd': "(fs(tempFile s \<mapsto> full))(tempFile s := None, target \<mapsto> full)
      = (fs(tempFile s := None))(target \<mapsto> full)"
    by (auto simp: fun_eq_iff)
  have commit: "ExportStream_close Succeeds Succeeds s fs
          = Inr (closed_stream, (fs(tempFile s := None))(target \<mapsto> full))"
    using ne ne'
    by (cases "fs target")
       (simp_all add: ExportStream_close_def flush fs_exists_def fs_remove_def fs_rename_def
          target [symmetric] closed_stream upd upd')
  have commit_absent: "ExportStream_close removal Succeeds s fs
            = Inr (closed_stream, (fs(tempFile s := None))(target \<mapsto> full))"
    if "fs target = None"
    using that ne ne'
    by (simp add: ExportStream_close_def flush fs_exists_def fs_rename_def
        target [symmetric] closed_stream upd')
  from remove_fails rename_fails rename_fails_absent commit commit_absent ne ne'
  show ?thesis by simp
qed


theorem ExportStream_close_outcomes_witness:
  "ExportStream_new True ''out'' ''m.lwo'' [''out/m.lwo'' \<mapsto> ''old'']
     = Inr (\<lparr> tempFile = ''out/_m.lwo'', tempStream = \<lparr> is_open = True, unflushed = [] \<rparr>,
              outputDirectory = ''out'', filename = ''m.lwo'' \<rparr>,
            [''out/m.lwo'' \<mapsto> ''old'', ''out/_m.lwo'' \<mapsto> []])
   \<and> ExportStream_close Succeeds (Fails ''busy'')
        (ExportStream_write ''LWO2''
           \<lparr> tempFile = ''out/_m.lwo'', tempStream = \<lparr> is_open = True, unflushed = [] \<rparr>,
             outputDirectory = ''out'', filename = ''m.lwo'' \<rparr>)
        [''out/m.lwo'' \<mapsto> ''old'', ''out/_m.lwo'' \<mapsto> []]
     = Inl (runtime_error ''Could not rename the temporary file: out/_m.lwo'',
            \<lparr> tempFile = ''out/_m.lwo'', tempStream = \<lparr> is_open = False, unflushed = [] \<rparr>,
              outputDirectory = ''out'', filename = ''m.lwo'' \<rparr>,
            ([''out/m.lwo'' \<mapsto> ''old'', ''out/_m.lwo'' \<mapsto> []](''out/_m.lwo'' \<mapsto> ''LWO2''))
              (''out/m.lwo'' := None))
   \<and> ExportStream_close Succeeds Succeeds
        (ExportStream_write ''LWO2''
           \<lparr> tempFile = ''out/_m.lwo'', tempStream = \<lparr> is_open = True, unflushed = [] \<rparr>,
             outputDirectory = ''out'', filename = ''m.lwo'' \<rparr>)
        [''out/m.lwo'' \<mapsto> ''old'', ''out/_m.lwo'' \<mapsto> []]
     = Inr (\<lparr> tempFile = ''out/_m.lwo'', tempStream = \<lparr> is_open = False, unflushed = [] \<rparr>,
              outputDirectory = ''out'', filename = ''m.lwo'' \<rparr>,
            ([''out/m.lwo'' \<mapsto> ''old'', ''out/_m.lwo'' \<mapsto> []](''out/_m.lwo'' := None))
              (''out/m.lwo'' \<mapsto> ''LWO2''))"
proof -
  let ?init = "\<lparr> tempFile = ''out/_m.lwo'', tempStream = \<lparr> is_open = True, unflushed = [] \<rparr>,
               outputDirectory = ''out'', filename = ''m.lwo'' \<rparr>"
  let ?strm = "ExportStream_write ''LWO2'' ?init"
  let ?fs = "[''out/m.lwo'' \<mapsto> ''old'', ''out/_m.lwo'' \<mapsto> []] :: filesystem"
  have new: "ExportStream_new True ''out'' ''m.lwo'' [''out/m.lwo'' \<mapsto> ''old''] = Inr (?init, ?fs)"
    by (simp add: ExportStream_new_def path_append_def Let_def)
  have s: "?strm = \<lparr> tempFile = ''out/_m.lwo'',
                  tempStream = \<lparr> is_open = True, unflushed = ''LWO2'' \<rparr>,
                  outputDirectory = ''out'', filename = ''m.lwo'' \<rparr>"
    by (simp add: ExportStream_write_def ofstream_write_def)
  have h1: "?fs (tempFile ?strm) = Some []"
    by (simp add: s)
  have h2: "is_open (tempStream ?strm)"
    by (simp add: s)
  have h3: "tempFile ?strm = path_append (outputDirectory ?strm) (''_'' @ filename ?strm)"
    by (simp add: s path_append_def)
  from ExportStream_close_outcomes
         [where s = ?strm and fs = ?fs and written = "[]" and what = "''busy''",
          OF h1 h2 h3 refl refl refl]
       new
  show ?thesis
    by (simp add: s path_append_def)
qed

end
